theory Spec2Isabelle
  imports Complex_Main "HOL-Library.Multiset" "HOL-Library.Product_Lexorder"
begin

section \<open>The fan curve: steps and the target computation\<close>

text \<open>
  A temperature read by \<open>read_cpu_temp\<close> is a finite Python float (an integer divided
  by 1000.0, or 0.0), hence a rational number: it is an exact \<open>rat\<close>. A threshold of a
  step comes from \<open>float\<close> applied to a configuration line (or is one of the built-in
  integers) and can also be an infinity or NaN: it is a \<open>pyfloat\<close>. The comparisons
  are those of IEEE floats: every comparison with NaN is false. The only arithmetic is
  a threshold plus or minus \<open>HYSTERESIS\<close>, which is exact on the built-in thresholds
  (on a configured threshold the result may be rounded to the nearest double, which the
  model does not do).
\<close>

datatype pyfloat = Finite rat | PosInf | NegInf | NaN

fun lt_pf :: "pyfloat \<Rightarrow> pyfloat \<Rightarrow> bool" where
  "lt_pf (Finite a) (Finite b) = (a < b)"
| "lt_pf (Finite a) PosInf = True"
| "lt_pf NegInf (Finite b) = True"
| "lt_pf NegInf PosInf = True"
| "lt_pf x y = False"

fun le_pf :: "pyfloat \<Rightarrow> pyfloat \<Rightarrow> bool" where
  "le_pf (Finite a) (Finite b) = (a \<le> b)"
| "le_pf NaN y = False"
| "le_pf x NaN = False"
| "le_pf NegInf y = True"
| "le_pf x PosInf = True"
| "le_pf x y = False"

fun add_pf :: "pyfloat \<Rightarrow> rat \<Rightarrow> pyfloat" where
  "add_pf (Finite a) d = Finite (a + d)"
| "add_pf x d = x"

record Step =
  temp_c :: pyfloat
  speed :: int

definition HYSTERESIS :: rat where
  "HYSTERESIS = 4"

text \<open>The table \<open>parse_conf\<close> returns when the configuration file does not exist.\<close>

definition default_steps :: "Step list" where
  "default_steps =
     [\<lparr>temp_c = Finite 45, speed = 20\<rparr>, \<lparr>temp_c = Finite 50, speed = 35\<rparr>,
      \<lparr>temp_c = Finite 55, speed = 55\<rparr>, \<lparr>temp_c = Finite 60, speed = 75\<rparr>,
      \<lparr>temp_c = Finite 65, speed = 100\<rparr>]"

text \<open>
  The first loop of \<open>calc_target\<close>: \<open>target\<close> starts at 0 and every step whose threshold
  the temperature has reached (\<open>temp >= st.temp_c\<close>) overwrites it, in list order.
\<close>

primrec scan_steps :: "rat \<Rightarrow> Step list \<Rightarrow> int \<Rightarrow> int" where
  "scan_steps temp [] target = target"
| "scan_steps temp (st # steps) target =
     scan_steps temp steps (if le_pf (temp_c st) (Finite temp) then speed st else target)"

text \<open>
  \<open>next((s.temp_c for s in steps if s.speed == v), dflt)\<close>: the threshold of the first
  step with speed \<open>v\<close>, or \<open>dflt\<close> when there is none.
\<close>

primrec next_temp_c :: "Step list \<Rightarrow> int \<Rightarrow> pyfloat \<Rightarrow> pyfloat" where
  "next_temp_c [] v dflt = dflt"
| "next_temp_c (s # steps) v dflt = (if speed s = v then temp_c s else next_temp_c steps v dflt)"

text \<open>
  The two hysteresis tests are \<open>temp < threshold - HYSTERESIS\<close> and
  \<open>temp > threshold + HYSTERESIS\<close>.
\<close>

definition calc_target :: "rat \<Rightarrow> Step list \<Rightarrow> int option \<Rightarrow> int" where
  "calc_target temp steps last' =
     (let target = scan_steps temp steps 0 in
      case last' of
        None \<Rightarrow> target
      | Some l \<Rightarrow>
          if target > l
             \<and> lt_pf (Finite temp) (add_pf (next_temp_c steps target (Finite temp)) (- HYSTERESIS))
          then l
          else if target < l
             \<and> lt_pf (add_pf (next_temp_c steps l (Finite temp)) HYSTERESIS) (Finite temp)
          then l
          else target)"

section \<open>Python built-ins used by the script\<close>

text \<open>
  Text is ASCII: a \<open>char\<close> is one byte. \<open>str.strip()\<close> removes the characters for which
  \<open>str.isspace\<close> holds, which among the ASCII characters are 9 to 13 and 28 to 32.
\<close>

datatype error = RuntimeError | OSError | IndexError | ValueError | UnicodeDecodeError

definition isspace :: "char \<Rightarrow> bool" where
  "isspace c = (let n = (of_char c :: nat) in (9 \<le> n \<and> n \<le> 13) \<or> (28 \<le> n \<and> n \<le> 32))"

definition strip :: "string \<Rightarrow> string" where
  "strip s = rev (dropWhile isspace (rev (dropWhile isspace s)))"

definition upper_char :: "char \<Rightarrow> char" where
  "upper_char c =
     (let n = (of_char c :: nat) in if 97 \<le> n \<and> n \<le> 122 then char_of (n - 32) else c)"

definition upper :: "string \<Rightarrow> string" where
  "upper s = map upper_char s"

text \<open>\<open>s.split(sep)\<close> for a one-character separator: always at least one part.\<close>

fun split_on :: "char \<Rightarrow> string \<Rightarrow> string list" where
  "split_on sep [] = [[]]"
| "split_on sep (c # cs) =
     (if c = sep then [] # split_on sep cs
      else (case split_on sep cs of p # ps \<Rightarrow> (c # p) # ps | [] \<Rightarrow> [[c]]))"

text \<open>
  \<open>int(s)\<close> for a string, base 10: surrounding whitespace is dropped (for \<open>int\<close> that
  is the characters 9 to 13 and 32 only), one sign is allowed, and the digits may be
  separated by single underscores. \<open>None\<close> stands for the ValueError. (CPython's limit
  on the number of digits is not modelled.)
\<close>

definition int_space :: "char \<Rightarrow> bool" where
  "int_space c = (let n = (of_char c :: nat) in (9 \<le> n \<and> n \<le> 13) \<or> n = 32)"

definition digit_val :: "char \<Rightarrow> nat option" where
  "digit_val c =
     (let n = (of_char c :: nat) in if 48 \<le> n \<and> n \<le> 57 then Some (n - 48) else None)"

fun digits_rest :: "string \<Rightarrow> nat \<Rightarrow> nat option" where
  "digits_rest [] acc = Some acc"
| "digits_rest (c # cs) acc =
     (if c = CHR ''_'' then
        (case cs of
           [] \<Rightarrow> None
         | c' # cs' \<Rightarrow>
             (case digit_val c' of None \<Rightarrow> None | Some d \<Rightarrow> digits_rest cs' (acc * 10 + d)))
      else (case digit_val c of None \<Rightarrow> None | Some d \<Rightarrow> digits_rest cs (acc * 10 + d)))"

definition digits :: "string \<Rightarrow> nat option" where
  "digits s =
     (case s of
        [] \<Rightarrow> None
      | c # cs \<Rightarrow> (case digit_val c of None \<Rightarrow> None | Some d \<Rightarrow> digits_rest cs d))"

definition py_int :: "string \<Rightarrow> int option" where
  "py_int s =
     (case rev (dropWhile int_space (rev (dropWhile int_space s))) of
        [] \<Rightarrow> None
      | c # cs \<Rightarrow>
          if c = CHR ''-'' then map_option (\<lambda>n. - int n) (digits cs)
          else if c = CHR ''+'' then map_option int (digits cs)
          else map_option int (digits (c # cs)))"

text \<open>\<open>str(n)\<close> for an integer.\<close>

fun nat_digits :: "nat \<Rightarrow> string" where
  "nat_digits n =
     (if n < 10 then [char_of (48 + n)] else nat_digits (n div 10) @ [char_of (48 + n mod 10)])"

declare nat_digits.simps [simp del]

definition py_str :: "int \<Rightarrow> string" where
  "py_str i = (if i < 0 then CHR ''-'' # nat_digits (nat (- i)) else nat_digits (nat i))"

section \<open>The configuration file\<close>

text \<open>
  The outside world of the script: the content of the state file \<open>STATE_PATH\<close> (\<open>None\<close>
  when it cannot be opened), the configuration file \<open>CONF_PATH\<close>, and the trace of every
  side effect so far, oldest first. The configuration file is absent
  (\<open>os.path.exists\<close> is false), or it exists and opening or decoding it raises, or it
  yields its lines.
\<close>

datatype fs_outcome = Write_ok | Open_fails | Write_fails

datatype conf_state = No_file | Unreadable error | Readable "string list"

datatype event =
    Bus_open nat bool
  | Bus_write nat nat int bool
  | Bus_close
  | State_write int fs_outcome
  | Print_speed int
  | Print_status rat int "int option"

record world =
  state_file :: "string option"
  conf_file :: conf_state
  trace :: "event list"

definition emit :: "event \<Rightarrow> world \<Rightarrow> world" where
  "emit e w = w\<lparr>trace := trace w @ [e]\<rparr>"

text \<open>
  One line of the configuration file, as the body of the loop in \<open>parse_conf\<close> treats it:
  \<open>None\<close> when the line adds no step (blank, a comment, or any exception in the
  \<open>try\<close> block). \<open>float(t)\<close> rounds the literal to a double, or gives an infinity or
  NaN; it is the parameter \<open>float_of\<close>, \<open>None\<close> when it raises.
\<close>

definition parse_line :: "(string \<Rightarrow> pyfloat option) \<Rightarrow> string \<Rightarrow> Step option" where
  "parse_line float_of line0 =
     (let line = strip line0 in
      if line = [] \<or> take 1 line = ''#'' then None
      else
        (case split_on CHR ''='' line of
           [t, s] \<Rightarrow>
             (case float_of t of
                None \<Rightarrow> None
              | Some tv \<Rightarrow>
                  (case py_int s of None \<Rightarrow> None | Some sv \<Rightarrow> Some \<lparr>temp_c = tv, speed = sv\<rparr>))
         | _ \<Rightarrow> None))"

text \<open>
  \<open>steps.sort(key=lambda x: x.temp_c)\<close>. The sort is stable and compares keys with
  \<open><\<close> only. When no key is NaN the keys are totally ordered and the result is the
  stable sort by \<open>rank\<close>, which orders the floats as \<open><\<close> does. When a key is NaN the
  comparisons are inconsistent and the order the sort leaves depends on its algorithm;
  it is the parameter \<open>nan_sort\<close>.
\<close>

fun rank :: "pyfloat \<Rightarrow> int \<times> rat" where
  "rank NegInf = (- 1, 0)"
| "rank (Finite a) = (0, a)"
| "rank PosInf = (1, 0)"
| "rank NaN = (2, 0)"

definition has_nan :: "Step list \<Rightarrow> bool" where
  "has_nan steps = list_ex (\<lambda>st. temp_c st = NaN) steps"

definition sort_steps :: "(Step list \<Rightarrow> Step list) \<Rightarrow> Step list \<Rightarrow> Step list" where
  "sort_steps nan_sort steps =
     (if has_nan steps then nan_sort steps else sort_key (\<lambda>st. rank (temp_c st)) steps)"

text \<open>
  \<open>parse_conf\<close>. The \<open>open\<close> and the iteration over the lines stand outside the \<open>try\<close>
  block, so a file that exists and cannot be opened or decoded raises out of the
  function.
\<close>

definition parse_conf ::
  "(string \<Rightarrow> pyfloat option) \<Rightarrow> (Step list \<Rightarrow> Step list) \<Rightarrow> world \<Rightarrow> error + Step list" where
  "parse_conf float_of nan_sort w =
     (case conf_file w of
        No_file \<Rightarrow> Inr default_steps
      | Unreadable err \<Rightarrow> Inl err
      | Readable lines \<Rightarrow> Inr (sort_steps nan_sort (List.map_filter (parse_line float_of) lines)))"

text \<open>
  Stand-ins for concrete runs: for \<open>float\<close>, a function that agrees with it on
  \<open>nan\<close>, \<open>inf\<close>, \<open>-inf\<close> and on plain integer literals of moderate size, where the
  conversion is exact; for the sort with a NaN key, the function that leaves the list
  as it is.
\<close>

definition float_of_int_literal :: "string \<Rightarrow> pyfloat option" where
  "float_of_int_literal s =
     (if s = ''nan'' then Some NaN
      else if s = ''inf'' then Some PosInf
      else if s = ''-inf'' then Some NegInf
      else map_option (\<lambda>i. Finite (rat_of_int i)) (py_int s))"

definition keep_order :: "Step list \<Rightarrow> Step list" where
  "keep_order steps = steps"

section \<open>The state file and the fan controller\<close>

definition I2C_BUS :: nat where "I2C_BUS = 1"
definition I2C_ADDR :: nat where "I2C_ADDR = 0x1A"
definition FAN_REG :: nat where "FAN_REG = 0x80"

text \<open>
  \<open>write_state\<close>: opening the file for writing truncates it, so a write that fails after
  a successful open leaves it empty; every exception is swallowed.
\<close>

definition write_state :: "fs_outcome \<Rightarrow> int \<Rightarrow> world \<Rightarrow> world" where
  "write_state fs speed' w =
     emit (State_write speed' fs)
       (case fs of
          Write_ok \<Rightarrow> w\<lparr>state_file := Some (py_str speed')\<rparr>
        | Open_fails \<Rightarrow> w
        | Write_fails \<Rightarrow> w\<lparr>state_file := Some []\<rparr>)"

definition read_state :: "world \<Rightarrow> int option" where
  "read_state w = (case state_file w of None \<Rightarrow> None | Some s \<Rightarrow> py_int (strip s))"

text \<open>
  The controller object. Its bus handle lives in the trace; its lock is not modelled
  (the model is single-threaded).
\<close>

record FanController =
  last_speed :: "int option"

datatype smbus_status = No_module | Cannot_open | Available

definition FanController_init ::
  "smbus_status \<Rightarrow> world \<Rightarrow> (error \<times> world) + (FanController \<times> world)" where
  "FanController_init st w =
     (case st of
        No_module \<Rightarrow> Inl (RuntimeError, w)
      | Cannot_open \<Rightarrow> Inl (OSError, emit (Bus_open I2C_BUS False) w)
      | Available \<Rightarrow>
          (let w1 = emit (Bus_open I2C_BUS True) w in Inr (\<lparr>last_speed = read_state w1\<rparr>, w1)))"

text \<open>
  \<open>set_speed\<close>. \<open>hw_ok\<close> says whether \<open>write_byte_data\<close> succeeds if it is called, \<open>fs\<close>
  how \<open>write_state\<close> fares if it is called. On an exception the result carries the
  state as the exception leaves it.
\<close>

definition set_speed ::
  "bool \<Rightarrow> fs_outcome \<Rightarrow> int \<Rightarrow> FanController \<times> world \<Rightarrow>
   (error \<times> FanController \<times> world) + (FanController \<times> world)" where
  "set_speed hw_ok fs speed_arg fw =
     (case fw of (fan, w) \<Rightarrow>
        (let speed' = max 0 (min 100 speed_arg) in
         if last_speed fan = Some speed' then Inr (fan, w)
         else if \<not> hw_ok then Inl (OSError, fan, emit (Bus_write I2C_ADDR FAN_REG speed' False) w)
         else
           (let w1 = emit (Bus_write I2C_ADDR FAN_REG speed' True) w;
                fan1 = fan\<lparr>last_speed := Some speed'\<rparr>;
                w2 = write_state fs speed' w1
            in Inr (fan1, emit (Print_speed speed') w2))))"

definition close :: "world \<Rightarrow> world" where
  "close w = emit Bus_close w"

section \<open>The service loop and the command line\<close>

text \<open>
  What the environment contributes to one pass of the loop in \<open>run_service\<close>: whether a
  signal has set \<open>stop\<close> by the time the loop condition is tested, the value
  \<open>read_cpu_temp\<close> returns, and how the two writes of \<open>set_speed\<close> fare if they happen.
  The loop has no bound of its own, so it is run against a finite script of such passes;
  \<open>Running\<close> is the outcome when the script ends with the loop still going.
\<close>

record tick =
  tick_stop :: bool
  tick_temp :: rat
  tick_hw_ok :: bool
  tick_fs :: fs_outcome

datatype 'a run = Returned 'a | Raised error 'a | Running 'a

fun service_loop ::
  "Step list \<Rightarrow> tick list \<Rightarrow> FanController \<times> world \<Rightarrow> (FanController \<times> world) run" where
  "service_loop steps [] fw = Running fw"
| "service_loop steps (t # ts) fw =
     (if tick_stop t then Returned fw
      else
        (let temp = tick_temp t;
             target = calc_target temp steps (last_speed (fst fw))
         in case set_speed (tick_hw_ok t) (tick_fs t) target fw of
              Inl (e, fw') \<Rightarrow> Raised e fw'
            | Inr fw' \<Rightarrow> service_loop steps ts fw'))"

record env =
  smbus :: smbus_status
  float_builtin :: "string \<Rightarrow> pyfloat option"
  nan_sort_builtin :: "Step list \<Rightarrow> Step list"
  cpu_temp :: rat
  cmd_hw_ok :: bool
  cmd_fs :: fs_outcome
  ticks :: "tick list"

text \<open>
  \<open>run_service\<close>: \<open>parse_conf\<close> and the constructor run before the \<open>try\<close>; the
  \<open>finally\<close> clause closes the bus on return and on an exception.
\<close>

definition run_service :: "env \<Rightarrow> world \<Rightarrow> world run" where
  "run_service e w =
     (case parse_conf (float_builtin e) (nan_sort_builtin e) w of
        Inl err \<Rightarrow> Raised err w
      | Inr steps \<Rightarrow>
          (case FanController_init (smbus e) w of
             Inl (err, w1) \<Rightarrow> Raised err w1
           | Inr fw \<Rightarrow>
               (case service_loop steps (ticks e) fw of
                  Returned (fan, w2) \<Rightarrow> Returned (close w2)
                | Raised err (fan, w2) \<Rightarrow> Raised err (close w2)
                | Running (fan, w2) \<Rightarrow> Running w2)))"

text \<open>
  \<open>main\<close> and \<open>sys.exit(main())\<close>: the process ends with the returned code, or with an
  uncaught exception (which Python reports with exit code 1).
\<close>

datatype exit_status = Exit int | Uncaught error | Not_exited

definition exit_code :: "exit_status \<Rightarrow> int option" where
  "exit_code x = (case x of Exit n \<Rightarrow> Some n | Uncaught err \<Rightarrow> Some 1 | Not_exited \<Rightarrow> None)"

definition after_set_speed ::
  "(error \<times> FanController \<times> world) + (FanController \<times> world) \<Rightarrow> exit_status \<times> world" where
  "after_set_speed r =
     (case r of
        Inl (err, fan, w) \<Rightarrow> (Uncaught err, close w)
      | Inr (fan, w) \<Rightarrow> (Exit 0, close w))"

definition main :: "env \<Rightarrow> string list \<Rightarrow> world \<Rightarrow> exit_status \<times> world" where
  "main e argv w =
     (if length argv < 2 then (Exit 2, w)
      else
        (let cmd = upper (argv ! 1) in
         case FanController_init (smbus e) w of
           Inl (err, w1) \<Rightarrow> (Uncaught err, w1)
         | Inr (fan, w1) \<Rightarrow>
             if cmd = ''SERVICE'' then
               (case run_service e w1 of
                  Returned w2 \<Rightarrow> (Exit 0, close w2)
                | Raised err w2 \<Rightarrow> (Uncaught err, close w2)
                | Running w2 \<Rightarrow> (Not_exited, w2))
             else if cmd = ''FANON'' then
               after_set_speed (set_speed (cmd_hw_ok e) (cmd_fs e) 100 (fan, w1))
             else if cmd = ''FANOFF'' then
               after_set_speed (set_speed (cmd_hw_ok e) (cmd_fs e) 0 (fan, w1))
             else if cmd = ''FANSPEED'' then
               (if length argv < 3 then (Uncaught IndexError, close w1)
                else
                  (case py_int (argv ! 2) of
                     None \<Rightarrow> (Uncaught ValueError, close w1)
                   | Some n \<Rightarrow> after_set_speed (set_speed (cmd_hw_ok e) (cmd_fs e) n (fan, w1))))
             else if cmd = ''STATUS'' then
               (let temp = cpu_temp e in
                case parse_conf (float_builtin e) (nan_sort_builtin e) w1 of
                  Inl err \<Rightarrow> (Uncaught err, close w1)
                | Inr steps \<Rightarrow>
                    (let target = calc_target temp steps (last_speed fan)
                     in (Exit 0, close (emit (Print_status temp target (last_speed fan)) w1))))
             else (Exit 2, close w1)))"

text \<open>Counting side effects in a trace.\<close>

fun is_bus_event :: "event \<Rightarrow> bool" where
  "is_bus_event (Bus_open n ok) = True"
| "is_bus_event (Bus_write a r v ok) = True"
| "is_bus_event Bus_close = True"
| "is_bus_event ev = False"

fun is_bus_write :: "event \<Rightarrow> bool" where
  "is_bus_write (Bus_write a r v ok) = True"
| "is_bus_write ev = False"

fun is_state_write :: "event \<Rightarrow> bool" where
  "is_state_write (State_write v fs) = True"
| "is_state_write ev = False"

definition hw_writes :: "world \<Rightarrow> nat" where
  "hw_writes w = length (filter is_bus_write (trace w))"

definition state_writes :: "world \<Rightarrow> nat" where
  "state_writes w = length (filter is_state_write (trace w))"

text \<open>The world a call of \<open>set_speed\<close> leaves behind, returned or raised.\<close>

definition outcome_world ::
  "(error \<times> FanController \<times> world) + (FanController \<times> world) \<Rightarrow> world" where
  "outcome_world r = (case r of Inl (err, fan, w) \<Rightarrow> w | Inr (fan, w) \<Rightarrow> w)"

text \<open>A world to run examples in: no state file, no configuration file, nothing done yet.\<close>

definition fresh_world :: world where
  "fresh_world = \<lparr>state_file = None, conf_file = No_file, trace = []\<rparr>"

text \<open>
  An environment for example runs in which the bus opens, and a pass of the loop at a
  given temperature in which no signal has arrived.
\<close>

definition service_env :: "tick list \<Rightarrow> env" where
  "service_env ts =
     \<lparr>smbus = Available, float_builtin = float_of_int_literal, nan_sort_builtin = keep_order,
      cpu_temp = 50, cmd_hw_ok = True, cmd_fs = Write_ok, ticks = ts\<rparr>"

definition pass :: "rat \<Rightarrow> bool \<Rightarrow> tick" where
  "pass T ok = \<lparr>tick_stop = False, tick_temp = T, tick_hw_ok = ok, tick_fs = Write_ok\<rparr>"

section \<open>Properties of the target computation\<close>

lemma scan_steps_default:
  "scan_steps T default_steps 0 =
     (if T < 45 then 0 else if T < 50 then 20 else if T < 55 then 35
      else if T < 60 then 55 else if T < 65 then 75 else 100)"
  by (simp add: default_steps_def)

lemma next_temp_c_default:
  "next_temp_c default_steps v d =
     (if v = 20 then Finite 45 else if v = 35 then Finite 50 else if v = 55 then Finite 55
      else if v = 75 then Finite 60 else if v = 100 then Finite 65 else d)"
  by (simp add: default_steps_def)

text \<open>
  C3. Over the built-in table the base target (the result of the scan, which is what
  \<open>calc_target\<close> returns when there is no previous speed) is 0 below 45, 20 on [45, 50),
  35 on [50, 55), 55 on [55, 60), 75 on [60, 65) and 100 from 65 on, for every
  temperature; over the empty table it is 0 for every temperature.
\<close>

theorem base_target_default_and_empty:
  "scan_steps T default_steps 0 =
     (if T < 45 then 0 else if T < 50 then 20 else if T < 55 then 35
      else if T < 60 then 55 else if T < 65 then 75 else 100)
   \<and> calc_target T default_steps None = scan_steps T default_steps 0
   \<and> scan_steps T [] 0 = 0
   \<and> calc_target T [] last' = 0"
  by (simp add: scan_steps_default calc_target_def HYSTERESIS_def split: option.split)

text \<open>
  C10. Over the built-in table neither hysteresis branch ever changes the result:
  \<open>calc_target\<close> returns the base target for every temperature and every previous
  speed, present or not.
\<close>

theorem calc_target_default_is_base_target:
  "calc_target T default_steps last' = scan_steps T default_steps 0"
proof (cases last')
  case None
  then show ?thesis by (simp add: calc_target_def)
next
  case (Some l)
  then show ?thesis
    by (simp add: calc_target_def scan_steps_default next_temp_c_default HYSTERESIS_def)
qed

text \<open>
  C1. With the built-in table and a previous speed of 100, a temperature of 62 is
  answered with 75: the decrease is not held back anywhere below 65.
\<close>

theorem calc_target_decrease_not_suppressed:
  "calc_target 62 default_steps (Some 100) = 75
   \<and> calc_target (129 / 2) default_steps (Some 100) = 75
   \<and> calc_target 65 default_steps (Some 100) = 100
   \<and> calc_target 61 default_steps (Some 100) = 75"
  by (simp add: calc_target_def scan_steps_default next_temp_c_default HYSTERESIS_def)

subsection \<open>Tables with increasing speeds\<close>

text \<open>
  What C10 says of the built-in table holds for every table whose speeds increase
  strictly along the list and every previous speed that is not negative: the scan
  returns the speed of a step the temperature has reached, so the increase branch
  compares the temperature with a threshold it has already reached, and a step with the
  previous speed that the temperature has reached makes the scan return at least that
  speed, so the decrease branch compares it with a threshold it has not reached.
\<close>

lemma scan_steps_cases:
  "scan_steps T steps acc = acc
   \<or> (\<exists>m \<in> set steps. le_pf (temp_c m) (Finite T) \<and> scan_steps T steps acc = speed m)"
proof (induction steps arbitrary: acc)
  case Nil
  then show ?case by simp
next
  case (Cons x xs)
  from Cons.IH [of "if le_pf (temp_c x) (Finite T) then speed x else acc"] show ?case
    by (auto split: if_splits)
qed

lemma scan_steps_lower:
  assumes "sorted (map speed steps)" and "s \<in> set steps" and "le_pf (temp_c s) (Finite T)"
  shows "speed s \<le> scan_steps T steps acc"
  using assms
proof (induction steps arbitrary: acc)
  case Nil
  then show ?case by simp
next
  case (Cons x xs)
  let ?acc = "if le_pf (temp_c x) (Finite T) then speed x else acc"
  from Cons.prems(1) have srt: "sorted (map speed xs)" and low: "\<forall>y \<in> set xs. speed x \<le> speed y"
    by simp_all
  show ?case
  proof (cases "s \<in> set xs")
    case True
    from Cons.IH [OF srt True Cons.prems(3)] show ?thesis by simp
  next
    case False
    with Cons.prems(2) have sx: "s = x" by simp
    with Cons.prems(3) have acc: "?acc = speed x" by simp
    from scan_steps_cases [of T xs ?acc] low acc sx show ?thesis
      by auto
  qed
qed

lemma next_temp_c_cases:
  "next_temp_c steps v d = d
   \<or> (\<exists>s \<in> set steps. speed s = v \<and> next_temp_c steps v d = temp_c s)"
  by (induction steps) auto

lemma next_temp_c_distinct:
  "distinct (map speed steps) \<Longrightarrow> m \<in> set steps \<Longrightarrow> next_temp_c steps (speed m) d = temp_c m"
  by (induction steps) auto

lemma reached_not_below_margin:
  "le_pf x (Finite T) \<Longrightarrow> \<not> lt_pf (Finite T) (add_pf x (- HYSTERESIS))"
  by (cases x) (simp_all add: HYSTERESIS_def)

lemma above_margin_reached:
  "lt_pf (add_pf x HYSTERESIS) (Finite T) \<Longrightarrow> le_pf x (Finite T) \<and> x \<noteq> Finite T"
  by (cases x) (simp_all add: HYSTERESIS_def)

lemma hysteresis_never_acts:
  assumes "sorted_wrt (<) (map speed steps)" and "0 \<le> l"
  shows "calc_target T steps (Some l) = scan_steps T steps 0"
proof -
  let ?target = "scan_steps T steps 0"
  from assms(1) have srt: "sorted (map speed steps)" and dst: "distinct (map speed steps)"
    by (simp_all add: strict_sorted_iff)
  have up: "\<not> (?target > l
      \<and> lt_pf (Finite T) (add_pf (next_temp_c steps ?target (Finite T)) (- HYSTERESIS)))"
  proof
    assume a: "?target > l
      \<and> lt_pf (Finite T) (add_pf (next_temp_c steps ?target (Finite T)) (- HYSTERESIS))"
    with assms(2) have "?target \<noteq> 0" by simp
    with scan_steps_cases [of T steps 0]
    obtain m where m: "m \<in> set steps" "le_pf (temp_c m) (Finite T)" "?target = speed m"
      by auto
    from next_temp_c_distinct [OF dst m(1)] m(3)
    have "next_temp_c steps ?target (Finite T) = temp_c m"
      by simp
    with a reached_not_below_margin [OF m(2)] show False by simp
  qed
  have down: "\<not> (?target < l
      \<and> lt_pf (add_pf (next_temp_c steps l (Finite T)) HYSTERESIS) (Finite T))"
  proof
    assume a: "?target < l
      \<and> lt_pf (add_pf (next_temp_c steps l (Finite T)) HYSTERESIS) (Finite T)"
    with above_margin_reached [of "next_temp_c steps l (Finite T)" T]
    have r: "le_pf (next_temp_c steps l (Finite T)) (Finite T)"
      and "next_temp_c steps l (Finite T) \<noteq> Finite T"
      by simp_all
    with next_temp_c_cases [of steps l "Finite T"]
    obtain s where s: "s \<in> set steps" "speed s = l" "next_temp_c steps l (Finite T) = temp_c s"
      by auto
    with r have "le_pf (temp_c s) (Finite T)" by simp
    from scan_steps_lower [OF srt s(1) this, of 0] s(2) a show False by simp
  qed
  from up down show ?thesis
    by (simp add: calc_target_def Let_def)
qed

section \<open>Properties of the controller\<close>

subsection \<open>What each side effect changes\<close>

lemma hw_writes_emit [simp]:
  "hw_writes (emit ev w) = hw_writes w + (if is_bus_write ev then 1 else 0)"
  by (simp add: hw_writes_def emit_def)

lemma state_writes_emit [simp]:
  "state_writes (emit ev w) = state_writes w + (if is_state_write ev then 1 else 0)"
  by (simp add: state_writes_def emit_def)

lemma state_file_emit [simp]: "state_file (emit ev w) = state_file w"
  by (simp add: emit_def)

lemma conf_file_emit [simp]: "conf_file (emit ev w) = conf_file w"
  by (simp add: emit_def)

lemma trace_emit [simp]: "trace (emit ev w) = trace w @ [ev]"
  by (simp add: emit_def)

lemma hw_writes_write_state [simp]: "hw_writes (write_state fs v w) = hw_writes w"
  by (cases fs) (simp_all add: write_state_def hw_writes_def)

lemma state_writes_write_state [simp]: "state_writes (write_state fs v w) = state_writes w + 1"
  by (cases fs) (simp_all add: write_state_def state_writes_def)

lemma read_state_emit [simp]: "read_state (emit ev w) = read_state w"
  by (simp add: read_state_def)

lemma parse_conf_emit [simp]: "parse_conf f ns (emit ev w) = parse_conf f ns w"
  by (simp add: parse_conf_def)

subsection \<open>\<open>set_speed\<close>\<close>

lemma set_speed_noop:
  "last_speed fan = Some (max 0 (min 100 v)) \<Longrightarrow> set_speed hw fs v (fan, w) = Inr (fan, w)"
  by (simp add: set_speed_def Let_def)

text \<open>The only exception \<open>set_speed\<close> raises is the failed bus write, and it commits nothing.\<close>

lemma set_speed_raises:
  "set_speed hw fs v (fan, w) = Inl (err, fan', w') \<Longrightarrow>
     \<not> hw \<and> err = OSError \<and> fan' = fan \<and> state_file w' = state_file w
     \<and> state_writes w' = state_writes w"
  by (auto simp: set_speed_def Let_def split: if_splits)

text \<open>
  C9. The request is clamped to [0, 100] before it is compared or written: the clamped
  value, and no other, is what \<open>set_speed\<close> compares with \<open>last_speed\<close>, writes to
  the fan register, stores in \<open>last_speed\<close>, hands to \<open>write_state\<close> and prints. So in
  every state and whatever the writes do, \<open>set_speed 150\<close> has the result and side
  effects of \<open>set_speed 100\<close> (a request of 150 writes 100), and \<open>set_speed (-5)\<close>
  those of \<open>set_speed 0\<close> (a request of -5 writes 0).
\<close>

theorem set_speed_clamps:
  "set_speed hw fs 150 fw = set_speed hw fs 100 fw
   \<and> set_speed hw fs (- 5) fw = set_speed hw fs 0 fw
   \<and> set_speed hw fs v fw = set_speed hw fs (max 0 (min 100 v)) fw
   \<and> 0 \<le> max 0 (min 100 v) \<and> max 0 (min 100 v) \<le> 100
   \<and> set_speed hw fs v (fan, w) =
       (if last_speed fan = Some (max 0 (min 100 v)) then Inr (fan, w)
        else if hw then
          Inr (fan\<lparr>last_speed := Some (max 0 (min 100 v))\<rparr>,
               w\<lparr>state_file :=
                    (case fs of
                       Write_ok \<Rightarrow> Some (py_str (max 0 (min 100 v)))
                     | Open_fails \<Rightarrow> state_file w
                     | Write_fails \<Rightarrow> Some []),
                  trace := trace w @
                    [Bus_write I2C_ADDR FAN_REG (max 0 (min 100 v)) True,
                     State_write (max 0 (min 100 v)) fs,
                     Print_speed (max 0 (min 100 v))]\<rparr>)
        else
          Inl (OSError, fan,
               w\<lparr>trace := trace w @ [Bus_write I2C_ADDR FAN_REG (max 0 (min 100 v)) False]\<rparr>))
   \<and> set_speed True Write_ok 150 (\<lparr>last_speed = None\<rparr>, w) =
       Inr (\<lparr>last_speed = Some 100\<rparr>,
            w\<lparr>state_file := Some ''100'',
              trace := trace w @
                [Bus_write I2C_ADDR FAN_REG 100 True, State_write 100 Write_ok, Print_speed 100]\<rparr>)
   \<and> set_speed True Write_ok (- 5) (\<lparr>last_speed = None\<rparr>, w) =
       Inr (\<lparr>last_speed = Some 0\<rparr>,
            w\<lparr>state_file := Some ''0'',
              trace := trace w @
                [Bus_write I2C_ADDR FAN_REG 0 True, State_write 0 Write_ok, Print_speed 0]\<rparr>)"
proof -
  have str: "py_str 100 = ''100''" "py_str 0 = ''0''"
    by code_simp+
  have clamp: "set_speed hw fs v fw = set_speed hw fs (max 0 (min 100 v)) fw" for v
    by (simp add: set_speed_def)
  have range: "0 \<le> max 0 (min 100 v) \<and> max 0 (min 100 v) \<le> 100"
    by simp
  have effect: "set_speed hw fs v (fan, w) =
       (if last_speed fan = Some (max 0 (min 100 v)) then Inr (fan, w)
        else if hw then
          Inr (fan\<lparr>last_speed := Some (max 0 (min 100 v))\<rparr>,
               w\<lparr>state_file :=
                    (case fs of
                       Write_ok \<Rightarrow> Some (py_str (max 0 (min 100 v)))
                     | Open_fails \<Rightarrow> state_file w
                     | Write_fails \<Rightarrow> Some []),
                  trace := trace w @
                    [Bus_write I2C_ADDR FAN_REG (max 0 (min 100 v)) True,
                     State_write (max 0 (min 100 v)) fs,
                     Print_speed (max 0 (min 100 v))]\<rparr>)
        else
          Inl (OSError, fan,
               w\<lparr>trace := trace w @ [Bus_write I2C_ADDR FAN_REG (max 0 (min 100 v)) False]\<rparr>))"
    for v fan w
    by (cases fs) (simp_all add: set_speed_def Let_def write_state_def emit_def)
  have hi: "set_speed True Write_ok 150 (\<lparr>last_speed = None\<rparr>, w) =
       Inr (\<lparr>last_speed = Some 100\<rparr>,
            w\<lparr>state_file := Some ''100'',
              trace := trace w @
                [Bus_write I2C_ADDR FAN_REG 100 True, State_write 100 Write_ok, Print_speed 100]\<rparr>)"
    by (simp add: set_speed_def Let_def write_state_def emit_def str)
  have lo: "set_speed True Write_ok (- 5) (\<lparr>last_speed = None\<rparr>, w) =
       Inr (\<lparr>last_speed = Some 0\<rparr>,
            w\<lparr>state_file := Some ''0'',
              trace := trace w @
                [Bus_write I2C_ADDR FAN_REG 0 True, State_write 0 Write_ok, Print_speed 0]\<rparr>)"
    by (simp add: set_speed_def Let_def write_state_def emit_def str)
  from clamp [of 150] clamp [of "- 5"] clamp [of v] range effect [of v fan w] hi lo
  show ?thesis
    by simp
qed

text \<open>
  C4. When the bus write of \<open>set_speed\<close> fails, the call raises the error, the
  controller's \<open>last_speed\<close> and the state file are as before the call, and
  \<open>write_state\<close> has not been called; the failed bus write is the only side effect.
\<close>

theorem set_speed_hw_failure:
  assumes "\<not> hw" and "last_speed fan \<noteq> Some (max 0 (min 100 v))"
  shows "\<exists>w'. set_speed hw fs v (fan, w) = Inl (OSError, fan, w')
           \<and> state_file w' = state_file w \<and> state_writes w' = state_writes w
           \<and> trace w' = trace w @ [Bus_write I2C_ADDR FAN_REG (max 0 (min 100 v)) False]"
  using assms by (simp add: set_speed_def Let_def)

theorem set_speed_hw_failure_witness:
  "\<not> False \<and> last_speed \<lparr>last_speed = Some 20\<rparr> \<noteq> Some (max 0 (min 100 75))
   \<and> (\<exists>w'. set_speed False Write_ok 75 (\<lparr>last_speed = Some 20\<rparr>, fresh_world)
              = Inl (OSError, \<lparr>last_speed = Some 20\<rparr>, w')
           \<and> state_file w' = state_file fresh_world \<and> state_writes w' = state_writes fresh_world
           \<and> trace w' = trace fresh_world @ [Bus_write I2C_ADDR FAN_REG (max 0 (min 100 75)) False])"
  using set_speed_hw_failure [of False "\<lparr>last_speed = Some 20\<rparr>" 75 Write_ok fresh_world]
  by simp

text \<open>
  C8 (as amended). If the first of two successive \<open>set_speed\<close> calls with the same
  clamped value returns, the second leaves the controller and the world unchanged, and
  the two together perform exactly one bus write and one \<open>write_state\<close> when the
  controller's speed differed from the clamped value before, and none when it was
  already that value.
\<close>

theorem set_speed_twice:
  assumes "max 0 (min 100 v') = max 0 (min 100 v)"
    and "set_speed hw1 fs1 v (fan, w) = Inr (fan1, w1)"
  shows "set_speed hw2 fs2 v' (fan1, w1) = Inr (fan1, w1)
         \<and> last_speed fan1 = Some (max 0 (min 100 v))
         \<and> hw_writes w1 = hw_writes w + (if last_speed fan = Some (max 0 (min 100 v)) then 0 else 1)
         \<and> state_writes w1
             = state_writes w + (if last_speed fan = Some (max 0 (min 100 v)) then 0 else 1)"
  using assms by (auto simp: set_speed_def Let_def split: if_splits)

theorem set_speed_twice_witness:
  "max 0 (min 100 (120::int)) = max 0 (min 100 100)
   \<and> set_speed True Write_ok 100 (\<lparr>last_speed = None\<rparr>, fresh_world)
       = Inr (\<lparr>last_speed = Some 100\<rparr>,
              fresh_world\<lparr>state_file := Some ''100'',
                trace := [Bus_write I2C_ADDR FAN_REG 100 True, State_write 100 Write_ok,
                          Print_speed 100]\<rparr>)
   \<and> set_speed False Open_fails 120
         (\<lparr>last_speed = Some 100\<rparr>,
          fresh_world\<lparr>state_file := Some ''100'',
            trace := [Bus_write I2C_ADDR FAN_REG 100 True, State_write 100 Write_ok,
                      Print_speed 100]\<rparr>)
       = Inr (\<lparr>last_speed = Some 100\<rparr>,
              fresh_world\<lparr>state_file := Some ''100'',
                trace := [Bus_write I2C_ADDR FAN_REG 100 True, State_write 100 Write_ok,
                          Print_speed 100]\<rparr>)
   \<and> hw_writes
         (fresh_world\<lparr>state_file := Some ''100'',
            trace := [Bus_write I2C_ADDR FAN_REG 100 True, State_write 100 Write_ok,
                      Print_speed 100]\<rparr>) = 1
   \<and> state_writes
         (fresh_world\<lparr>state_file := Some ''100'',
            trace := [Bus_write I2C_ADDR FAN_REG 100 True, State_write 100 Write_ok,
                      Print_speed 100]\<rparr>) = 1"
proof -
  let ?w1 = "fresh_world\<lparr>state_file := Some ''100'',
                trace := [Bus_write I2C_ADDR FAN_REG 100 True, State_write 100 Write_ok,
                          Print_speed 100]\<rparr>"
  have c: "max 0 (min 100 (120::int)) = max 0 (min 100 100)" by simp
  have str: "py_str 100 = ''100''" by code_simp
  have first: "set_speed True Write_ok 100 (\<lparr>last_speed = None\<rparr>, fresh_world)
                 = Inr (\<lparr>last_speed = Some 100\<rparr>, ?w1)"
    by (simp add: set_speed_def write_state_def emit_def fresh_world_def str)
  have w0: "hw_writes fresh_world = 0" "state_writes fresh_world = 0"
    by (simp_all add: hw_writes_def state_writes_def fresh_world_def)
  from set_speed_twice [OF c first, of False Open_fails] c first w0 show ?thesis
    by simp
qed

text \<open>
  The claim as stated fails where the controller already holds the value: both calls
  return without any write.
\<close>

theorem set_speed_twice_no_write:
  "set_speed True Write_ok 50 (\<lparr>last_speed = Some 50\<rparr>, fresh_world)
     = Inr (\<lparr>last_speed = Some 50\<rparr>, fresh_world)
   \<and> set_speed True Write_ok 50
       (projr (set_speed True Write_ok 50 (\<lparr>last_speed = Some 50\<rparr>, fresh_world)))
     = Inr (\<lparr>last_speed = Some 50\<rparr>, fresh_world)
   \<and> hw_writes fresh_world = 0 \<and> state_writes fresh_world = 0"
  by (simp add: set_speed_def hw_writes_def state_writes_def fresh_world_def)

subsection \<open>Startup\<close>

lemma py_int_55: "py_int (strip ''55'') = Some 55"
  by code_simp

text \<open>
  C7. With the state file holding \<open>55\<close> the controller starts with \<open>last_speed\<close> 55
  and \<open>set_speed 55\<close> changes nothing. With the state file absent or not parseable
  \<open>last_speed\<close> is \<open>None\<close>, and the next \<open>set_speed\<close> attempts the bus write whatever
  value is requested.
\<close>

theorem startup_recovery:
  "(state_file w = Some ''55'' \<longrightarrow>
      (\<exists>w1. FanController_init Available w = Inr (\<lparr>last_speed = Some 55\<rparr>, w1)
            \<and> set_speed hw fs 55 (\<lparr>last_speed = Some 55\<rparr>, w1)
                = Inr (\<lparr>last_speed = Some 55\<rparr>, w1)))
   \<and> (read_state w = None \<longrightarrow>
      (\<exists>w1. FanController_init Available w = Inr (\<lparr>last_speed = None\<rparr>, w1)
            \<and> (\<forall>v. set_speed hw fs v (\<lparr>last_speed = None\<rparr>, w1) \<noteq> Inr (\<lparr>last_speed = None\<rparr>, w1)
                   \<and> hw_writes (outcome_world (set_speed hw fs v (\<lparr>last_speed = None\<rparr>, w1)))
                       = hw_writes w1 + 1)))"
  by (auto simp: FanController_init_def read_state_def py_int_55 set_speed_def Let_def
        outcome_world_def)

theorem startup_recovery_witness:
  "state_file (fresh_world\<lparr>state_file := Some ''55''\<rparr>) = Some ''55''
   \<and> (\<exists>w1. FanController_init Available (fresh_world\<lparr>state_file := Some ''55''\<rparr>)
               = Inr (\<lparr>last_speed = Some 55\<rparr>, w1)
            \<and> set_speed True Write_ok 55 (\<lparr>last_speed = Some 55\<rparr>, w1)
                = Inr (\<lparr>last_speed = Some 55\<rparr>, w1))
   \<and> read_state (fresh_world\<lparr>state_file := Some ''5x''\<rparr>) = None
   \<and> (\<exists>w1. FanController_init Available (fresh_world\<lparr>state_file := Some ''5x''\<rparr>)
               = Inr (\<lparr>last_speed = None\<rparr>, w1)
            \<and> (\<forall>v. set_speed True Write_ok v (\<lparr>last_speed = None\<rparr>, w1)
                       \<noteq> Inr (\<lparr>last_speed = None\<rparr>, w1)
                   \<and> hw_writes (outcome_world (set_speed True Write_ok v (\<lparr>last_speed = None\<rparr>, w1)))
                       = hw_writes w1 + 1))
   \<and> read_state fresh_world = None"
proof -
  have a: "state_file (fresh_world\<lparr>state_file := Some ''55''\<rparr>) = Some ''55''"
    by simp
  have "py_int (strip ''5x'') = None"
    by code_simp
  then have b: "read_state (fresh_world\<lparr>state_file := Some ''5x''\<rparr>) = None"
    by (simp add: read_state_def)
  have c: "read_state fresh_world = None"
    by (simp add: read_state_def fresh_world_def)
  from startup_recovery [of "fresh_world\<lparr>state_file := Some ''55''\<rparr>" True Write_ok]
    startup_recovery [of "fresh_world\<lparr>state_file := Some ''5x''\<rparr>" True Write_ok]
    a b c
  show ?thesis by blast
qed

section \<open>Properties of the service loop\<close>

text \<open>Passes that complete can be split off the front of the script.\<close>

lemma service_loop_append:
  "service_loop steps ps fw = Running fw' \<Longrightarrow>
     service_loop steps (ps @ ts) fw = service_loop steps ts fw'"
proof (induction ps arbitrary: fw)
  case Nil
  then show ?case by simp
next
  case (Cons p ps)
  show ?case
  proof (cases "tick_stop p")
    case True
    with Cons.prems show ?thesis by simp
  next
    case False
    let ?r = "set_speed (tick_hw_ok p) (tick_fs p)
                (calc_target (tick_temp p) steps (last_speed (fst fw))) fw"
    show ?thesis
    proof (cases ?r)
      case (Inl a)
      with False Cons.prems show ?thesis
        by (simp add: Let_def split: prod.splits)
    next
      case (Inr fw1)
      with False Cons.prems have "service_loop steps ps fw1 = Running fw'"
        by (simp add: Let_def)
      from Cons.IH [OF this] Inr False show ?thesis
        by (simp add: Let_def)
    qed
  qed
qed

lemma service_loop_failing_tick:
  assumes "\<not> tick_stop t" and "\<not> tick_hw_ok t"
    and "last_speed fan \<noteq> Some (max 0 (min 100 (calc_target (tick_temp t) steps (last_speed fan))))"
  shows "service_loop steps (t # ts) (fan, w)
           = Raised OSError
               (fan, emit (Bus_write I2C_ADDR FAN_REG
                  (max 0 (min 100 (calc_target (tick_temp t) steps (last_speed fan)))) False) w)"
  using assms by (simp add: set_speed_def Let_def)

lemma service_loop_failure_after:
  assumes "service_loop steps ps fw = Running (fan, w)"
    and "\<not> tick_stop t" and "\<not> tick_hw_ok t"
    and "last_speed fan \<noteq> Some (max 0 (min 100 (calc_target (tick_temp t) steps (last_speed fan))))"
  shows "service_loop steps (ps @ t # ts) fw
           = Raised OSError
               (fan, emit (Bus_write I2C_ADDR FAN_REG
                  (max 0 (min 100 (calc_target (tick_temp t) steps (last_speed fan)))) False) w)"
  using service_loop_append [OF assms(1)] service_loop_failing_tick [OF assms(2,3,4)]
  by simp

text \<open>
  C2 (as amended). When the bus write fails inside \<open>set_speed\<close> during a pass of the
  service loop (the configuration having been read), the exception leaves the loop: no later pass is performed whatever the
  rest of the script holds, \<open>last_speed\<close> and the state file are as they were before
  the pass, both bus handles are closed, and the process ends with the uncaught
  exception (exit code 1).
\<close>

theorem service_hw_failure_ends_process:
  assumes "2 \<le> length argv" and "upper (argv ! 1) = ''SERVICE''"
    and "smbus e = Available" and "ticks e = ps @ t # ts"
    and "parse_conf (float_builtin e) (nan_sort_builtin e) w = Inr steps"
    and "service_loop steps ps
           (\<lparr>last_speed = read_state w\<rparr>,
            emit (Bus_open I2C_BUS True) (emit (Bus_open I2C_BUS True) w)) = Running (fan, w')"
    and "\<not> tick_stop t" and "\<not> tick_hw_ok t"
    and "last_speed fan \<noteq> Some (max 0 (min 100
           (calc_target (tick_temp t) steps (last_speed fan))))"
  shows "main e argv w
           = (Uncaught OSError,
              close (close (emit (Bus_write I2C_ADDR FAN_REG
                (max 0 (min 100 (calc_target (tick_temp t) steps (last_speed fan))))
                False) w')))
         \<and> exit_code (fst (main e argv w)) = Some 1
         \<and> state_file (snd (main e argv w)) = state_file w'
         \<and> hw_writes (snd (main e argv w)) = hw_writes w' + 1"
proof -
  let ?v = "max 0 (min 100 (calc_target (tick_temp t) steps (last_speed fan)))"
  let ?w1 = "emit (Bus_open I2C_BUS True) w"
  have loop: "service_loop steps (ticks e) (\<lparr>last_speed = read_state w\<rparr>, emit (Bus_open I2C_BUS True) ?w1)
                = Raised OSError (fan, emit (Bus_write I2C_ADDR FAN_REG ?v False) w')"
    using service_loop_failure_after [OF assms(6,7,8,9)] assms(4) by simp
  have svc: "run_service e ?w1 = Raised OSError (close (emit (Bus_write I2C_ADDR FAN_REG ?v False) w'))"
    using loop assms(3,5) by (simp add: run_service_def FanController_init_def Let_def)
  have m: "main e argv w = (Uncaught OSError, close (close (emit (Bus_write I2C_ADDR FAN_REG ?v False) w')))"
    using svc assms(1,2,3) by (simp add: main_def FanController_init_def Let_def)
  show ?thesis
    by (simp add: m exit_code_def close_def)
qed

theorem service_hw_failure_ends_process_witness:
  "ticks (service_env [pass 50 True, pass 70 False, pass 70 True])
     = [pass 50 True] @ pass 70 False # [pass 70 True]
   \<and> parse_conf float_of_int_literal keep_order fresh_world = Inr default_steps
   \<and> service_loop default_steps [pass 50 True]
         (\<lparr>last_speed = read_state fresh_world\<rparr>,
          emit (Bus_open I2C_BUS True) (emit (Bus_open I2C_BUS True) fresh_world))
       = Running (\<lparr>last_speed = Some 35\<rparr>,
           \<lparr>state_file = Some ''35'', conf_file = No_file,
              trace = [Bus_open 1 True, Bus_open 1 True, Bus_write 26 128 35 True,
                       State_write 35 Write_ok, Print_speed 35]\<rparr>)
   \<and> main (service_env [pass 50 True, pass 70 False, pass 70 True])
         [''argononed.py'', ''service''] fresh_world
       = (Uncaught OSError,
          \<lparr>state_file = Some ''35'', conf_file = No_file,
             trace = [Bus_open 1 True, Bus_open 1 True, Bus_write 26 128 35 True,
                      State_write 35 Write_ok, Print_speed 35, Bus_write 26 128 100 False,
                      Bus_close, Bus_close]\<rparr>)
   \<and> exit_code (fst (main (service_env [pass 50 True, pass 70 False, pass 70 True])
         [''argononed.py'', ''service''] fresh_world)) = Some 1"
proof -
  let ?e = "service_env [pass 50 True, pass 70 False, pass 70 True]"
  let ?argv = "[''argononed.py'', ''service'']"
  let ?fan = "\<lparr>last_speed = Some 35\<rparr>"
  let ?w' = "\<lparr>state_file = Some ''35'', conf_file = No_file,
              trace = [Bus_open 1 True, Bus_open 1 True, Bus_write 26 128 35 True,
                       State_write 35 Write_ok, Print_speed 35]\<rparr>"
  have h1: "2 \<le> length ?argv" by simp
  have h2: "upper (?argv ! 1) = ''SERVICE''" by code_simp
  have h3: "smbus ?e = Available" by (simp add: service_env_def)
  have h4: "ticks ?e = [pass 50 True] @ pass 70 False # [pass 70 True]"
    by (simp add: service_env_def)
  have conf: "parse_conf float_of_int_literal keep_order fresh_world = Inr default_steps"
    by (simp add: parse_conf_def fresh_world_def)
  have hc: "parse_conf (float_builtin ?e) (nan_sort_builtin ?e) fresh_world = Inr default_steps"
    using conf by (simp add: service_env_def)
  have h5: "service_loop default_steps [pass 50 True]
              (\<lparr>last_speed = read_state fresh_world\<rparr>,
               emit (Bus_open I2C_BUS True) (emit (Bus_open I2C_BUS True) fresh_world))
            = Running (?fan, ?w')"
    by code_simp
  have h6: "\<not> tick_stop (pass 70 False)" and h7: "\<not> tick_hw_ok (pass 70 False)"
    by (simp_all add: pass_def)
  have tgt: "max 0 (min 100 (calc_target (tick_temp (pass 70 False))
               default_steps (last_speed ?fan))) = 100"
    by code_simp
  have h8: "last_speed ?fan \<noteq> Some (max 0 (min 100 (calc_target (tick_temp (pass 70 False))
               default_steps (last_speed ?fan))))"
    unfolding tgt by simp
  note inst = service_hw_failure_ends_process [of ?argv ?e "[pass 50 True]" "pass 70 False"
      "[pass 70 True]" fresh_world default_steps ?fan ?w', OF h1 h2 h3 h4 hc h5 h6 h7 h8,
      unfolded tgt]
  have cl: "close (close (emit (Bus_write I2C_ADDR FAN_REG 100 False) ?w'))
            = \<lparr>state_file = Some ''35'', conf_file = No_file,
                trace = [Bus_open 1 True, Bus_open 1 True, Bus_write 26 128 35 True,
                         State_write 35 Write_ok, Print_speed 35, Bus_write 26 128 100 False,
                         Bus_close, Bus_close]\<rparr>"
    by (simp add: close_def emit_def I2C_ADDR_def FAN_REG_def)
  from inst [unfolded cl] have m: "main ?e ?argv fresh_world
            = (Uncaught OSError,
               \<lparr>state_file = Some ''35'', conf_file = No_file,
                  trace = [Bus_open 1 True, Bus_open 1 True, Bus_write 26 128 35 True,
                           State_write 35 Write_ok, Print_speed 35, Bus_write 26 128 100 False,
                           Bus_close, Bus_close]\<rparr>)"
    by (rule conjunct1)
  from inst have ex: "exit_code (fst (main ?e ?argv fresh_world)) = Some 1"
    by (elim conjE)
  from h4 conf h5 m ex show ?thesis
    by (intro conjI)
qed

text \<open>
  The claim as stated fails: with a failing write in the first pass and a good one
  scripted for the second, the process ends after the first; only when the write
  succeeds is the loop still running at the end of the script.
\<close>

theorem service_hw_failure_exits:
  "main (service_env [pass 70 False, pass 70 True]) [''argononed.py'', ''SERVICE''] fresh_world
     = (Uncaught OSError,
        \<lparr>state_file = None, conf_file = No_file,
           trace = [Bus_open 1 True, Bus_open 1 True, Bus_write 26 128 100 False,
                    Bus_close, Bus_close]\<rparr>)
   \<and> exit_code (Uncaught OSError) = Some 1
   \<and> main (service_env [pass 70 True, pass 70 True]) [''argononed.py'', ''SERVICE''] fresh_world
     = (Not_exited,
        \<lparr>state_file = Some ''100'', conf_file = No_file,
           trace = [Bus_open 1 True, Bus_open 1 True, Bus_write 26 128 100 True,
                    State_write 100 Write_ok, Print_speed 100]\<rparr>)"
  by code_simp

section \<open>Properties of the command line\<close>

lemma main_no_command: "length argv < 2 \<Longrightarrow> main e argv w = (Exit 2, w)"
  by (simp add: main_def)

text \<open>Without the smbus module every command that names a subcommand ends in the RuntimeError.\<close>

lemma main_bus_unavailable:
  "2 \<le> length argv \<Longrightarrow> smbus e = No_module \<Longrightarrow> main e argv w = (Uncaught RuntimeError, w)"
  by (simp add: main_def FanController_init_def)

text \<open>
  C6 (as amended). With no subcommand the program returns 2 and touches nothing. With
  a subcommand that is none of the five known ones, and a bus that opens, it returns 2
  after opening and closing the bus, without a register write and without touching the
  state file.
\<close>

theorem main_exit_2:
  "(length argv < 2 \<longrightarrow> main e argv w = (Exit 2, w))
   \<and> (2 \<le> length argv \<and> smbus e = Available
        \<and> upper (argv ! 1) \<noteq> ''SERVICE'' \<and> upper (argv ! 1) \<noteq> ''FANON''
        \<and> upper (argv ! 1) \<noteq> ''FANOFF'' \<and> upper (argv ! 1) \<noteq> ''FANSPEED''
        \<and> upper (argv ! 1) \<noteq> ''STATUS''
      \<longrightarrow> main e argv w = (Exit 2, w\<lparr>trace := trace w @ [Bus_open I2C_BUS True, Bus_close]\<rparr>)
          \<and> hw_writes (snd (main e argv w)) = hw_writes w
          \<and> state_file (snd (main e argv w)) = state_file w)"
  by (simp add: main_def FanController_init_def Let_def close_def emit_def hw_writes_def)

theorem main_exit_2_witness:
  "length [''argononed.py''] < 2
   \<and> main (service_env []) [''argononed.py''] fresh_world = (Exit 2, fresh_world)
   \<and> 2 \<le> length [''argononed.py'', ''Turbo'']
   \<and> smbus (service_env []) = Available
   \<and> upper ([''argononed.py'', ''Turbo''] ! 1) = ''TURBO''
   \<and> main (service_env []) [''argononed.py'', ''Turbo''] fresh_world
       = (Exit 2, fresh_world\<lparr>trace := trace fresh_world @ [Bus_open I2C_BUS True, Bus_close]\<rparr>)"
proof -
  have a: "length [''argononed.py''] < 2" by simp
  have b: "2 \<le> length [''argononed.py'', ''Turbo'']" by simp
  have c: "smbus (service_env []) = Available" by (simp add: service_env_def)
  have u: "upper ([''argononed.py'', ''Turbo''] ! 1) = ''TURBO''" by code_simp
  from main_exit_2 [of "[''argononed.py'']" "service_env []" fresh_world]
    main_exit_2 [of "[''argononed.py'', ''Turbo'']" "service_env []" fresh_world]
    a b c u
  show ?thesis by simp
qed

text \<open>
  The claim as stated fails: an unknown subcommand is answered with 2 only after the
  bus has been opened, and \<open>FANSPEED\<close> without its number ends in an uncaught
  IndexError (exit code 1), also after the bus has been opened.
\<close>

theorem main_unknown_command_opens_bus:
  "main (service_env []) [''argononed.py'', ''Turbo''] fresh_world
     = (Exit 2, \<lparr>state_file = None, conf_file = No_file, trace = [Bus_open 1 True, Bus_close]\<rparr>)
   \<and> filter is_bus_event [Bus_open 1 True, Bus_close] = [Bus_open 1 True, Bus_close]
   \<and> main (service_env []) [''argononed.py'', ''FANSPEED''] fresh_world
     = (Uncaught IndexError,
        \<lparr>state_file = None, conf_file = No_file, trace = [Bus_open 1 True, Bus_close]\<rparr>)
   \<and> exit_code (Uncaught IndexError) = Some 1"
  by code_simp

section \<open>Properties of the configuration loader\<close>

text \<open>Lines that add no step, and what a line that adds one looks like.\<close>

lemma parse_line_skips:
  "strip l = [] \<Longrightarrow> parse_line f l = None"
  "take 1 (strip l) = ''#'' \<Longrightarrow> parse_line f l = None"
  "length (split_on CHR ''='' (strip l)) \<noteq> 2 \<Longrightarrow> parse_line f l = None"
  by (auto simp: parse_line_def Let_def split: list.splits)

lemma parse_line_Some:
  "parse_line f l = Some st \<Longrightarrow>
     \<exists>t s. split_on CHR ''='' (strip l) = [t, s] \<and> f t = Some (temp_c st) \<and> py_int s = Some (speed st)"
  by (auto simp: parse_line_def Let_def split: list.splits option.splits if_splits)





text \<open>A configuration file that exists and cannot be read ends \<open>run_service\<close> before the bus is opened.\<close>

lemma run_service_unreadable:
  "conf_file w = Unreadable err \<Longrightarrow> run_service e w = Raised err w"
  by (simp add: run_service_def parse_conf_def)




end
